theory Spec2Isabelle
  imports Complex_Main
begin

section \<open>Strings\<close>

text \<open>
  A Python \<open>str\<close> is modelled by an Isabelle \<open>string\<close>. The character tests below
  (\<open>lower\<close>, digits, word characters, white space) are the ASCII ones: they are exact on
  ASCII text, which is what the keyword tables, the patterns and the phrases of
  \<open>chatbot_fixed.py\<close> consist of. A symbol outside ASCII is held as the bytes of its UTF-8
  encoding and is left alone by every test.
\<close>

definition upper_letters :: string where
  "upper_letters = ''ABCDEFGHIJKLMNOPQRSTUVWXYZ''"

definition lower_letters :: string where
  "lower_letters = ''abcdefghijklmnopqrstuvwxyz''"

definition char_lower :: "char \<Rightarrow> char" where
  "char_lower c = (case map_of (zip upper_letters lower_letters) c of Some l \<Rightarrow> l | None \<Rightarrow> c)"

text \<open>\<open>str.lower()\<close>\<close>

definition lower :: "string \<Rightarrow> string" where
  "lower s = map char_lower s"

text \<open>\<open>s.startswith(p)\<close>\<close>

fun starts_with :: "string \<Rightarrow> string \<Rightarrow> bool" where
  "starts_with [] s = True"
| "starts_with (p # ps) [] = False"
| "starts_with (p # ps) (c # cs) = (p = c \<and> starts_with ps cs)"

text \<open>\<open>needle in haystack\<close> on strings: the needle occurs as a contiguous substring.\<close>

fun py_in :: "string \<Rightarrow> string \<Rightarrow> bool" where
  "py_in needle [] = (needle = [])"
| "py_in needle (c # cs) = (starts_with needle (c # cs) \<or> py_in needle cs)"

text \<open>\<open>any(word in text for word in words)\<close>\<close>

definition any_in :: "string list \<Rightarrow> string \<Rightarrow> bool" where
  "any_in words text = list_ex (\<lambda>word. py_in word text) words"

text \<open>\<open>s.replace('_', ' ')\<close>\<close>

definition replace_underscore :: "string \<Rightarrow> string" where
  "replace_underscore s = map (\<lambda>c. if c = CHR ''_'' then CHR '' '' else c) s"

section \<open>ConversationMemory\<close>

text \<open>
  The topic names are the keys of \<open>topic_keywords\<close> together with \<open>'general'\<close>; the section
  types of \<open>_identify_section_type\<close> are the same seven strings.
\<close>

datatype topic = Budget | Debt | Infrastructure | Taxation | Superannuation | Risk | General

fun topic_name :: "topic \<Rightarrow> string" where
  "topic_name Budget = ''budget''"
| "topic_name Debt = ''debt''"
| "topic_name Infrastructure = ''infrastructure''"
| "topic_name Taxation = ''taxation''"
| "topic_name Superannuation = ''superannuation''"
| "topic_name Risk = ''risk''"
| "topic_name General = ''general''"

text \<open>The dictionary \<open>self.topic_keywords\<close>, in its insertion order.\<close>

definition topic_keywords :: "(topic \<times> string list) list" where
  "topic_keywords =
    [(Budget, [''budget'', ''surplus'', ''deficit'', ''revenue'', ''expenses'']),
     (Debt, [''debt'', ''borrowing'', ''interest'', ''cost'', ''borrowings'']),
     (Infrastructure, [''infrastructure'', ''capital'', ''construction'', ''works'', ''projects'']),
     (Taxation, [''taxation'', ''tax'', ''gsp'', ''burden'', ''revenue'']),
     (Superannuation, [''superannuation'', ''pension'', ''funding'', ''liabilities'']),
     (Risk, [''risk'', ''assessment'', ''mitigation'', ''management'', ''prudent''])]"

text \<open>\<open>sum(1 for keyword in keywords if keyword in text_lower)\<close>\<close>

definition keyword_score :: "string list \<Rightarrow> string \<Rightarrow> nat" where
  "keyword_score keywords text_lower = length (filter (\<lambda>keyword. py_in keyword text_lower) keywords)"

text \<open>
  Python's \<open>max(iterable, key=f)\<close> on a non-empty iterable: the running best is replaced
  only by an item whose key is strictly greater, so the first maximal item is returned.
\<close>

fun max_by :: "('a \<Rightarrow> nat) \<Rightarrow> 'a \<Rightarrow> 'a list \<Rightarrow> 'a" where
  "max_by key best [] = best"
| "max_by key best (x # xs) = max_by key (if key best < key x then x else best) xs"

text \<open>
  The loop of \<open>_identify_topic\<close> fills \<open>topic_scores\<close> with the topics of positive score, in
  the order of \<open>topic_keywords\<close>; each topic is entered once, so the score stored with a
  topic is what \<open>topic_scores.get\<close> returns for it.
\<close>

definition topic_scores :: "string \<Rightarrow> (topic \<times> nat) list" where
  "topic_scores text_lower =
     filter (\<lambda>(t, score). 0 < score)
       (map (\<lambda>(t, keywords). (t, keyword_score keywords text_lower)) topic_keywords)"

definition identify_topic :: "string \<Rightarrow> topic" where
  "identify_topic text =
     (case topic_scores (lower text) of
        [] \<Rightarrow> General
      | entry # entries \<Rightarrow> fst (max_by snd entry entries))"

record interaction =
  question :: string
  response :: string
  topic :: topic

text \<open>\<open>current_topic\<close> is \<open>None\<close> until the first interaction is recorded.\<close>

record memory =
  max_history :: int
  conversation_history :: "interaction list"
  current_topic :: "topic option"

text \<open>\<open>ConversationMemory.__init__\<close>\<close>

definition new_memory :: "int \<Rightarrow> memory" where
  "new_memory n = \<lparr>max_history = n, conversation_history = [], current_topic = None\<rparr>"

text \<open>\<open>add_interaction\<close>: append, set the topic, then \<open>pop(0)\<close> when the history is too long.\<close>

definition add_interaction :: "string \<Rightarrow> string \<Rightarrow> memory \<Rightarrow> memory" where
  "add_interaction q r m =
     (let entry = \<lparr>question = q, response = r, topic = identify_topic q\<rparr>;
          history = conversation_history m @ [entry]
      in m\<lparr>conversation_history :=
              (if max_history m < int (length history) then tl history else history),
            current_topic := Some (topic entry)\<rparr>)"

definition vague_phrases :: "string list" where
  "vague_phrases = [''tell me more'', ''what about it'', ''explain more'', ''more details'']"

definition pronouns :: "string list" where
  "pronouns = [''that'', ''this'', ''it'']"

text \<open>
  \<open>enhance_question\<close>. A topic, once set, is one of the seven non-empty names, so the truth
  test \<open>self.current_topic\<close> is the test for \<open>None\<close>. When the inner test of the first
  \<open>if\<close> fails, control falls through to the second \<open>if\<close>, as in the chain below.
\<close>

definition enhance_question :: "memory \<Rightarrow> string \<Rightarrow> string" where
  "enhance_question m q =
     (let question_lower = lower q in
      if any_in vague_phrases question_lower \<and> current_topic m \<noteq> None
           \<and> current_topic m \<noteq> Some General
      then q @ '' about '' @ replace_underscore (topic_name (the (current_topic m)))
      else if any_in pronouns question_lower \<and> current_topic m \<noteq> None
      then q @ '' (referring to '' @ replace_underscore (topic_name (the (current_topic m))) @ '')''
      else q)"

record conversation_context =
  context_topic :: topic
  recent_topics :: "topic list"
  history_length :: nat

text \<open>\<open>get_context\<close>; \<open>conversation_history[-3:]\<close> is the last three entries, or all of them.\<close>

definition get_context :: "memory \<Rightarrow> conversation_context" where
  "get_context m =
     \<lparr>context_topic = (case current_topic m of None \<Rightarrow> General | Some t \<Rightarrow> t),
      recent_topics =
        map topic (drop (length (conversation_history m) - 3) (conversation_history m)),
      history_length = length (conversation_history m)\<rparr>"

definition clear_history :: "memory \<Rightarrow> memory" where
  "clear_history m = m\<lparr>conversation_history := [], current_topic := None\<rparr>"



text \<open>A run of \<open>add_interaction\<close> calls, oldest first, and the entry each call appends.\<close>

definition record_all :: "(string \<times> string) list \<Rightarrow> memory \<Rightarrow> memory" where
  "record_all qrs m = foldl (\<lambda>m (q, r). add_interaction q r m) m qrs"

definition interaction_of :: "string \<times> string \<Rightarrow> interaction" where
  "interaction_of qr = \<lparr>question = fst qr, response = snd qr, topic = identify_topic (fst qr)\<rparr>"


section \<open>DocumentProcessor\<close>

subsection \<open>Regular expressions\<close>

definition digits :: string where
  "digits = ''0123456789''"

text \<open>\<open>\d\<close> and \<open>\w\<close>\<close>

definition is_digit :: "char \<Rightarrow> bool" where
  "is_digit c = (c \<in> set digits)"

definition is_word_char :: "char \<Rightarrow> bool" where
  "is_word_char c = (c \<in> set (lower_letters @ upper_letters @ digits @ ''_''))"

text \<open>
  \<open>\b\<close> at a position: exactly one of the character before it and the character after it
  is a word character, the ends of the text counting as none.
\<close>

definition word_boundary :: "char option \<Rightarrow> string \<Rightarrow> bool" where
  "word_boundary prev rest =
     ((case prev of None \<Rightarrow> False | Some c \<Rightarrow> is_word_char c)
        \<noteq> (case rest of [] \<Rightarrow> False | c # cs \<Rightarrow> is_word_char c))"

text \<open>
  A matcher is one pattern tried at one position: it is given the character before the
  position and the text from the position on, and returns the length of the match.
  \<open>re.findall\<close> tries the pattern at each position from left to right and resumes after
  a match. No pattern of \<open>extract_financial_data\<close> matches the empty string.
\<close>

type_synonym matcher = "char option \<Rightarrow> string \<Rightarrow> nat option"

function findall :: "matcher \<Rightarrow> char option \<Rightarrow> string \<Rightarrow> string list" where
  "findall m prev [] = []"
| "findall m prev (c # cs) =
     (case m prev (c # cs) of
        Some (Suc k) \<Rightarrow>
          take (Suc k) (c # cs) # findall m (Some (last (take (Suc k) (c # cs)))) (drop k cs)
      | _ \<Rightarrow> findall m (Some c) cs)"
  by pat_completeness auto
termination
  by (relation "measure (\<lambda>(m, prev, s). length s)") auto

text \<open>
  The text left after an optional character of the class \<open>cs\<close>, as after \<open>\.?\<close> or \<open>[mM]?\<close>.
\<close>

definition optional :: "string \<Rightarrow> string \<Rightarrow> string" where
  "optional cs s = (case s of [] \<Rightarrow> [] | c # rest \<Rightarrow> if c \<in> set cs then rest else s)"

text \<open>
  \<open>\$[\d,]+\.?\d*[mM]?\<close>. Everything after \<open>[\d,]+\<close> is optional, so the greedy choice at
  each step is the match; its length is what the steps have consumed.
\<close>

definition match_dollar :: matcher where
  "match_dollar prev s =
     (case s of
        [] \<Rightarrow> None
      | c # cs \<Rightarrow>
          if c \<noteq> CHR ''$'' \<or> takeWhile (\<lambda>d. is_digit d \<or> d = CHR '','') cs = [] then None
          else
            let rest1 = dropWhile (\<lambda>d. is_digit d \<or> d = CHR '','') cs;
                rest2 = optional ''.'' rest1;
                rest3 = dropWhile is_digit rest2;
                rest4 = optional ''mM'' rest3
            in Some (length s - length rest4))"

text \<open>
  \<open>\d+\.?\d*%\<close>. A shorter choice for \<open>\d+\<close>, \<open>\.?\<close> or \<open>\d*\<close> leaves a digit or the point
  where \<open>%\<close> is wanted, or ends where the greedy choice ends, so the pattern matches
  exactly when the greedy choice does.
\<close>

definition match_percent :: matcher where
  "match_percent prev s =
     (if takeWhile is_digit s = [] then None
      else
        let rest1 = dropWhile is_digit s;
            rest2 = optional ''.'' rest1;
            rest3 = dropWhile is_digit rest2
        in (case rest3 of
              [] \<Rightarrow> None
            | c # rest4 \<Rightarrow> if c = CHR ''%'' then Some (length s - length rest4) else None))"

text \<open>
  \<open>\b20\d{2}(?:-\d{2})?\b\<close>: the range suffix is tried first, and given up when no word
  boundary follows it.
\<close>

definition match_year :: matcher where
  "match_year prev s =
     (case s of
        a # b # c # d # rest \<Rightarrow>
          if word_boundary prev s \<and> a = CHR ''2'' \<and> b = CHR ''0'' \<and> is_digit c \<and> is_digit d
          then (case rest of
                  h # e # f # rest' \<Rightarrow>
                    if h = CHR ''-'' \<and> is_digit e \<and> is_digit f \<and> word_boundary (Some f) rest'
                    then Some 7
                    else if word_boundary (Some d) rest then Some 4 else None
                | _ \<Rightarrow> if word_boundary (Some d) rest then Some 4 else None)
          else None
      | _ \<Rightarrow> None)"

text \<open>
  \<open>\b(?:w1|w2|w3)\b\<close> under \<open>re.IGNORECASE\<close>: the first alternative that matches the text,
  letter case aside, and is followed by a word boundary. Every alternative ends in a
  letter.
\<close>

definition matches_word :: "string \<Rightarrow> string \<Rightarrow> bool" where
  "matches_word w s =
     (length w \<le> length s \<and> lower (take (length w) s) = lower w
        \<and> word_boundary (Some (last (take (length w) s))) (drop (length w) s))"

definition match_keyword :: "string list \<Rightarrow> matcher" where
  "match_keyword alternatives prev s =
     (if word_boundary prev s
      then (case find (\<lambda>w. matches_word w s) alternatives of
              None \<Rightarrow> None
            | Some w \<Rightarrow> Some (length w))
      else None)"

subsection \<open>extract_financial_data\<close>

definition keyword_patterns :: "string list list" where
  "keyword_patterns =
     [[''budget'', ''surplus'', ''deficit''],
      [''debt'', ''borrowing'', ''interest''],
      [''infrastructure'', ''capital'', ''construction''],
      [''taxation'', ''revenue'', ''GSP''],
      [''superannuation'', ''pension'', ''funding'']]"

text \<open>The dictionary that \<open>extract_financial_data\<close> returns; \<open>found_keywords\<close> is its
  entry \<open>'keywords'\<close>.\<close>

record financial_data =
  dollar_amounts :: "string list"
  percentages :: "string list"
  years :: "string list"
  found_keywords :: "string list"

text \<open>
  \<open>list(set(keywords))\<close> holds each matched keyword once, in an order that Python leaves
  to its hashing; \<open>remdups\<close> fixes one such order, and no statement below depends on it.
\<close>

definition extract_financial_data :: "string \<Rightarrow> financial_data" where
  "extract_financial_data text =
     \<lparr>dollar_amounts = findall match_dollar None text,
      percentages = findall match_percent None text,
      years = findall match_year None text,
      found_keywords =
        remdups (concat (map (\<lambda>pattern. findall (match_keyword pattern) None text) keyword_patterns))\<rparr>"

subsection \<open>process_document\<close>

text \<open>\<open>_identify_section_type\<close>\<close>

definition identify_section_type :: "string \<Rightarrow> topic" where
  "identify_section_type text =
     (let text_lower = lower text in
      if any_in [''budget'', ''surplus'', ''deficit'', ''operating result''] text_lower then Budget
      else if any_in [''debt'', ''borrowing'', ''interest cost''] text_lower then Debt
      else if any_in [''infrastructure'', ''capital'', ''construction''] text_lower then Infrastructure
      else if any_in [''taxation'', ''tax burden'', ''gsp''] text_lower then Taxation
      else if any_in [''superannuation'', ''pension'', ''funding''] text_lower then Superannuation
      else if any_in [''risk'', ''assessment'', ''mitigation''] text_lower then Risk
      else General)"

text \<open>White space as \<open>str.split()\<close> sees it in ASCII: tab to carriage return, the four
  separators \<open>0x1c\<close> to \<open>0x1f\<close>, and the space.\<close>

definition is_space :: "char \<Rightarrow> bool" where
  "is_space c = (c \<in> set [CHR 0x09, CHR 0x0A, CHR 0x0B, CHR 0x0C, CHR 0x0D,
                           CHR 0x1C, CHR 0x1D, CHR 0x1E, CHR 0x1F, CHR '' ''])"

text \<open>\<open>s.split()\<close>: the maximal runs of characters that are not white space.\<close>

fun split_words :: "string \<Rightarrow> string \<Rightarrow> string list" where
  "split_words w [] = (if w = [] then [] else [w])"
| "split_words w (c # cs) =
     (if is_space c then (if w = [] then split_words [] cs else w # split_words [] cs)
      else split_words (w @ [c]) cs)"

text \<open>\<open>str(n)\<close> for a number that is not negative.\<close>

fun str_nat :: "nat \<Rightarrow> string" where
  "str_nat n = (if n < 10 then [digits ! n] else str_nat (n div 10) @ [digits ! (n mod 10)])"

declare str_nat.simps [simp del]

text \<open>
  The exceptions of the program, each with the text that \<open>str(e)\<close> gives. \<open>Exception\<close>
  stands for every class not named here.
\<close>

datatype error =
    FileNotFoundError string
  | IndexError string
  | AttributeError string
  | Exception string

fun error_message :: "error \<Rightarrow> string" where
  "error_message (FileNotFoundError msg) = msg"
| "error_message (IndexError msg) = msg"
| "error_message (AttributeError msg) = msg"
| "error_message (Exception msg) = msg"

record chunk_metadata =
  chunk_index :: nat
  word_count :: nat
  has_financial_data :: bool

record chunk =
  chunk_id :: string
  chunk_content :: string
  section_type :: topic
  chunk_financial_data :: financial_data
  chunk_metadata :: chunk_metadata

text \<open>The body of the loop of \<open>process_document\<close>, for chunk \<open>i\<close>.\<close>

definition processed_chunk :: "nat \<Rightarrow> string \<Rightarrow> chunk" where
  "processed_chunk i text =
     (let data = extract_financial_data text in
      \<lparr>chunk_id = ''chunk_'' @ str_nat i,
       chunk_content = text,
       section_type = identify_section_type text,
       chunk_financial_data = data,
       chunk_metadata =
         \<lparr>chunk_index = i,
          word_count = length (split_words [] text),
          has_financial_data = (dollar_amounts data \<noteq> [] \<or> percentages data \<noteq> [])\<rparr>\<rparr>)"

section \<open>The collaborators\<close>

text \<open>
  What the program calls and does not define is a parameter of the model: the file
  system, the text splitter of \<open>langchain\<close>, the sentence encoder, and the collection of
  \<open>chromadb\<close>, whose state has the type \<open>'c\<close>. Each call either returns or raises.
  The distances of a query are floating-point numbers, taken here as reals.

  The text of a response template after its first line is fixed text and bullets chosen
  by the retrieved content; it is not modelled, and \<open>template_body\<close> stands for it.
\<close>

datatype meta_value = MStr string | MInt int | MBool bool

type_synonym metadata = "(string \<times> meta_value) list"

type_synonym embedding = "real list"

text \<open>The answer of \<open>collection.query\<close>: one inner list per query embedding.\<close>

record query_result =
  documents :: "string list list"
  metadatas :: "metadata option list list"
  distances :: "real list list"

datatype template =
    BudgetTemplate | DebtTemplate | InfrastructureTemplate | TaxationTemplate
  | RiskTemplate | SuperannuationTemplate | GeneralTemplate

record 'c env =
  read_file :: "string \<Rightarrow> error + string"
  split_text :: "string \<Rightarrow> error + string list"
  encode :: "string \<Rightarrow> error + embedding"
  collection_count :: "'c \<Rightarrow> error + nat"
  collection_add :: "'c \<Rightarrow> embedding list \<Rightarrow> metadata list \<Rightarrow> string list \<Rightarrow> string list \<Rightarrow> error + 'c"
  collection_query :: "'c \<Rightarrow> embedding \<Rightarrow> int \<Rightarrow> error + query_result"
  template_body :: "template \<Rightarrow> string \<Rightarrow> string list \<Rightarrow> string"

text \<open>
  \<open>process_document\<close>: a \<open>FileNotFoundError\<close> is raised again with the path, any other
  exception as an \<open>Exception\<close> that quotes it.
\<close>

definition process_document :: "'c env \<Rightarrow> string \<Rightarrow> error + chunk list" where
  "process_document env document_path =
     (case (case read_file env document_path of
              Inl e \<Rightarrow> Inl e
            | Inr text \<Rightarrow>
                (case split_text env text of
                   Inl e \<Rightarrow> Inl e
                 | Inr chunks \<Rightarrow>
                     Inr (map (\<lambda>(i, chunk). processed_chunk i chunk) (enumerate 0 chunks)))) of
        Inl (FileNotFoundError msg) \<Rightarrow>
          Inl (FileNotFoundError (''Document not found: '' @ document_path))
      | Inl e \<Rightarrow> Inl (Exception (''Error processing document: '' @ error_message e))
      | Inr processed_chunks \<Rightarrow> Inr processed_chunks)"

section \<open>VectorDatabase\<close>

record 'c vector_db =
  collection_name :: string
  collection :: 'c

text \<open>\<open>sep.join(parts)\<close>\<close>

fun join :: "string \<Rightarrow> string list \<Rightarrow> string" where
  "join sep [] = []"
| "join sep [s] = s"
| "join sep (s # t # ts) = s @ sep @ join sep (t # ts)"

text \<open>The metadata dictionary that \<open>add_documents\<close> builds for one document.\<close>

definition document_metadata :: "chunk \<Rightarrow> metadata" where
  "document_metadata doc =
     [(''section_type'', MStr (topic_name (section_type doc))),
      (''chunk_index'', MInt (int (chunk_index (chunk_metadata doc)))),
      (''word_count'', MInt (int (word_count (chunk_metadata doc)))),
      (''has_financial_data'', MBool (has_financial_data (chunk_metadata doc))),
      (''keywords'', MStr (join '','' (take 5 (found_keywords (chunk_financial_data doc)))))]"

text \<open>The loop of \<open>add_documents\<close> encodes the documents in order and stops at the first
  failure.\<close>

fun encode_all :: "'c env \<Rightarrow> chunk list \<Rightarrow> error + embedding list" where
  "encode_all env [] = Inr []"
| "encode_all env (doc # docs) =
     (case encode env (chunk_content doc) of
        Inl e \<Rightarrow> Inl e
      | Inr v \<Rightarrow> (case encode_all env docs of Inl e \<Rightarrow> Inl e | Inr vs \<Rightarrow> Inr (v # vs)))"

definition add_documents :: "'c env \<Rightarrow> 'c vector_db \<Rightarrow> chunk list \<Rightarrow> error + 'c vector_db" where
  "add_documents env db docs =
     (case encode_all env docs of
        Inl e \<Rightarrow> Inl e
      | Inr embeddings \<Rightarrow>
          (case collection_add env (collection db) embeddings (map document_metadata docs)
                  (map chunk_content docs) (map chunk_id docs) of
             Inl e \<Rightarrow> Inl e
           | Inr c \<Rightarrow> Inr (db\<lparr>collection := c\<rparr>)))"

text \<open>\<open>xs[i]\<close> for \<open>i\<close> that is not negative.\<close>

definition item :: "'a list \<Rightarrow> nat \<Rightarrow> error + 'a" where
  "item xs i = (if i < length xs then Inr (xs ! i) else Inl (IndexError ''list index out of range''))"

record search_result =
  result_content :: string
  result_metadata :: "metadata option"
  score :: real

text \<open>The dictionary built for index \<open>i\<close> in \<open>search\<close>; its entries are evaluated in the
  order written.\<close>

definition format_result :: "query_result \<Rightarrow> nat \<Rightarrow> error + search_result" where
  "format_result results i =
     (case item (documents results) 0 of Inl e \<Rightarrow> Inl e | Inr docs \<Rightarrow>
      case item docs i of Inl e \<Rightarrow> Inl e | Inr doc \<Rightarrow>
      case item (metadatas results) 0 of Inl e \<Rightarrow> Inl e | Inr metas \<Rightarrow>
      case item metas i of Inl e \<Rightarrow> Inl e | Inr meta \<Rightarrow>
      case item (distances results) 0 of Inl e \<Rightarrow> Inl e | Inr dists \<Rightarrow>
      case item dists i of Inl e \<Rightarrow> Inl e | Inr distance \<Rightarrow>
        Inr \<lparr>result_content = doc, result_metadata = meta, score = 1 - distance\<rparr>)"

fun format_results :: "query_result \<Rightarrow> nat list \<Rightarrow> error + search_result list" where
  "format_results results [] = Inr []"
| "format_results results (i # rest) =
     (case format_result results i of
        Inl e \<Rightarrow> Inl e
      | Inr r \<Rightarrow> (case format_results results rest of Inl e \<Rightarrow> Inl e | Inr rs \<Rightarrow> Inr (r # rs)))"

definition search :: "'c env \<Rightarrow> 'c vector_db \<Rightarrow> string \<Rightarrow> int \<Rightarrow> error + search_result list" where
  "search env db query n_results =
     (case encode env query of Inl e \<Rightarrow> Inl e | Inr query_embedding \<Rightarrow>
      case collection_query env (collection db) query_embedding n_results of
        Inl e \<Rightarrow> Inl e
      | Inr results \<Rightarrow>
          (case item (documents results) 0 of
             Inl e \<Rightarrow> Inl e
           | Inr docs \<Rightarrow> format_results results [0..<length docs]))"

record collection_info =
  info_name :: string
  document_count :: nat
  info_model :: string

definition get_collection_info :: "'c env \<Rightarrow> 'c vector_db \<Rightarrow> error + collection_info" where
  "get_collection_info env db =
     (case collection_count env (collection db) of
        Inl e \<Rightarrow> Inl e
      | Inr count \<Rightarrow>
          Inr \<lparr>info_name = collection_name db, document_count = count,
               info_model = ''all-MiniLM-L6-v2''\<rparr>)"

section \<open>FinancialChatbot\<close>

record 'c chatbot =
  document_path :: string
  vector_db :: "'c vector_db"
  memory :: memory
  is_initialized :: bool

text \<open>\<open>_initialize\<close>\<close>

definition initialize :: "'c env \<Rightarrow> 'c chatbot \<Rightarrow> error + 'c chatbot" where
  "initialize env chat =
     (case process_document env (document_path chat) of
        Inl e \<Rightarrow> Inl e
      | Inr docs \<Rightarrow>
          (case get_collection_info env (vector_db chat) of
             Inl e \<Rightarrow> Inl e
           | Inr db_info \<Rightarrow>
               if document_count db_info = 0
               then (case add_documents env (vector_db chat) docs of
                       Inl e \<Rightarrow> Inl e
                     | Inr db \<Rightarrow> Inr (chat\<lparr>vector_db := db, is_initialized := True\<rparr>))
               else Inr (chat\<lparr>is_initialized := True\<rparr>)))"

text \<open>\<open>FinancialChatbot.__init__\<close>, given the vector database it opens.\<close>

definition new_chatbot :: "'c env \<Rightarrow> string \<Rightarrow> 'c vector_db \<Rightarrow> error + 'c chatbot" where
  "new_chatbot env path db =
     initialize env
       \<lparr>document_path = path, vector_db = db, memory = new_memory 10, is_initialized = False\<rparr>"

subsection \<open>Response templates\<close>

definition newline :: string where
  "newline = [CHR 0x0A]"

definition apostrophe :: string where
  "apostrophe = [CHR 0x27]"

text \<open>
  The first line of each template, without the two line breaks that follow it; the
  pictographs are in UTF-8.
\<close>

fun headline :: "template \<Rightarrow> string" where
  "headline BudgetTemplate = ''## '' @ [CHR 0xF0, CHR 0x9F, CHR 0x92, CHR 0xB0] @ '' BUDGET ANALYSIS''"
| "headline DebtTemplate =
     ''## '' @ [CHR 0xF0, CHR 0x9F, CHR 0x8F, CHR 0xA6] @ '' DEBT MANAGEMENT ANALYSIS''"
| "headline InfrastructureTemplate =
     ''## '' @ [CHR 0xF0, CHR 0x9F, CHR 0x8F, CHR 0x97, CHR 0xEF, CHR 0xB8, CHR 0x8F]
       @ '' INFRASTRUCTURE INVESTMENT ANALYSIS''"
| "headline TaxationTemplate =
     ''## '' @ [CHR 0xF0, CHR 0x9F, CHR 0x92, CHR 0xBC] @ '' TAXATION POLICY ANALYSIS''"
| "headline RiskTemplate =
     ''## '' @ [CHR 0xE2, CHR 0x9A, CHR 0x96, CHR 0xEF, CHR 0xB8, CHR 0x8F]
       @ '' FINANCIAL RISK ASSESSMENT''"
| "headline SuperannuationTemplate =
     ''## '' @ [CHR 0xF0, CHR 0x9F, CHR 0x8E, CHR 0xAF] @ '' SUPERANNUATION FUNDING ANALYSIS''"
| "headline GeneralTemplate = ''Based on the financial policy document:''"

definition format_budget_response :: "'c env \<Rightarrow> string \<Rightarrow> string list \<Rightarrow> string" where
  "format_budget_response env content sources =
     headline BudgetTemplate @ newline @ newline
       @ template_body env BudgetTemplate content sources"

definition format_debt_response :: "'c env \<Rightarrow> string \<Rightarrow> string list \<Rightarrow> string" where
  "format_debt_response env content sources =
     headline DebtTemplate @ newline @ newline
       @ template_body env DebtTemplate content sources"

definition format_infrastructure_response :: "'c env \<Rightarrow> string \<Rightarrow> string list \<Rightarrow> string" where
  "format_infrastructure_response env content sources =
     headline InfrastructureTemplate @ newline @ newline
       @ template_body env InfrastructureTemplate content sources"

definition format_taxation_response :: "'c env \<Rightarrow> string \<Rightarrow> string list \<Rightarrow> string" where
  "format_taxation_response env content sources =
     headline TaxationTemplate @ newline @ newline
       @ template_body env TaxationTemplate content sources"

definition format_risk_response :: "'c env \<Rightarrow> string \<Rightarrow> string list \<Rightarrow> string" where
  "format_risk_response env content sources =
     headline RiskTemplate @ newline @ newline
       @ template_body env RiskTemplate content sources"

definition format_superannuation_response :: "'c env \<Rightarrow> string \<Rightarrow> string list \<Rightarrow> string" where
  "format_superannuation_response env content sources =
     headline SuperannuationTemplate @ newline @ newline
       @ template_body env SuperannuationTemplate content sources"

definition format_general_response :: "'c env \<Rightarrow> string \<Rightarrow> string list \<Rightarrow> string" where
  "format_general_response env content sources =
     headline GeneralTemplate @ newline @ newline
       @ template_body env GeneralTemplate content sources"

text \<open>\<open>_create_contextual_response\<close>\<close>

definition create_contextual_response ::
    "'c env \<Rightarrow> string \<Rightarrow> string list \<Rightarrow> string list \<Rightarrow> string" where
  "create_contextual_response env q content_pieces sources =
     (let combined_content = join '' '' (take 2 content_pieces);
          question_lower = lower q
      in if any_in [''budget'', ''surplus'', ''deficit''] question_lower
         then format_budget_response env combined_content sources
         else if any_in [''debt'', ''borrowing'', ''interest''] question_lower
         then format_debt_response env combined_content sources
         else if any_in [''infrastructure'', ''capital'', ''construction''] question_lower
         then format_infrastructure_response env combined_content sources
         else if any_in [''tax'', ''taxation'', ''revenue''] question_lower
         then format_taxation_response env combined_content sources
         else if any_in [''risk'', ''assessment'', ''mitigation'', ''management''] question_lower
         then format_risk_response env combined_content sources
         else if any_in [''superannuation'', ''pension'', ''funding''] question_lower
         then format_superannuation_response env combined_content sources
         else format_general_response env combined_content sources)"

text \<open>\<open>str(v)\<close> for an integer and for a metadata value.\<close>

definition str_int :: "int \<Rightarrow> string" where
  "str_int i = (if i < 0 then ''-'' @ str_nat (nat (- i)) else str_nat (nat i))"

fun str_value :: "meta_value \<Rightarrow> string" where
  "str_value (MStr s) = s"
| "str_value (MInt i) = str_int i"
| "str_value (MBool b) = (if b then ''True'' else ''False'')"

text \<open>
  The label of one result in \<open>_generate_response\<close>. A result whose metadata is \<open>None\<close> has
  no method \<open>get\<close>.
\<close>

definition source_label :: "search_result \<Rightarrow> error + string" where
  "source_label r =
     (case result_metadata r of
        None \<Rightarrow>
          Inl (AttributeError (apostrophe @ ''NoneType'' @ apostrophe
                 @ '' object has no attribute '' @ apostrophe @ ''get'' @ apostrophe))
      | Some meta \<Rightarrow>
          Inr (''Section: '' @ (case map_of meta ''section_type'' of
                                  None \<Rightarrow> ''Unknown''
                                | Some v \<Rightarrow> str_value v)))"

fun source_labels :: "search_result list \<Rightarrow> error + string list" where
  "source_labels [] = Inr []"
| "source_labels (r # rs) =
     (case source_label r of
        Inl e \<Rightarrow> Inl e
      | Inr l \<Rightarrow> (case source_labels rs of Inl e \<Rightarrow> Inl e | Inr ls \<Rightarrow> Inr (l # ls)))"

definition no_information :: string where
  "no_information =
     ''I couldn'' @ apostrophe
       @ ''t find relevant information in the financial policy document for your question.''"

text \<open>\<open>_generate_response\<close>\<close>

definition generate_response :: "'c env \<Rightarrow> string \<Rightarrow> search_result list \<Rightarrow> error + string" where
  "generate_response env q search_results =
     (if search_results = [] then Inr no_information
      else (case source_labels search_results of
              Inl e \<Rightarrow> Inl e
            | Inr sources \<Rightarrow>
                Inr (create_contextual_response env q (map result_content search_results) sources)))"

definition not_initialized :: string where
  "not_initialized = ''Chatbot is not properly initialized. Please check the document path.''"

definition apology :: string where
  "apology = ''I apologize, but I encountered an error while processing your question: ''"

text \<open>The body of the \<open>try\<close> in \<open>ask\<close>: the response and the chatbot with the interaction
  recorded, or the exception raised.\<close>

definition ask_steps :: "'c env \<Rightarrow> 'c chatbot \<Rightarrow> string \<Rightarrow> error + string \<times> 'c chatbot" where
  "ask_steps env chat q =
     (let enhanced_question = enhance_question (memory chat) q in
      case search env (vector_db chat) enhanced_question 3 of
        Inl e \<Rightarrow> Inl e
      | Inr search_results \<Rightarrow>
          (case generate_response env enhanced_question search_results of
             Inl e \<Rightarrow> Inl e
           | Inr answer \<Rightarrow> Inr (answer, chat\<lparr>memory := add_interaction q answer (memory chat)\<rparr>)))"

text \<open>\<open>ask\<close>: the string returned and the chatbot afterwards.\<close>

definition ask :: "'c env \<Rightarrow> 'c chatbot \<Rightarrow> string \<Rightarrow> string \<times> 'c chatbot" where
  "ask env chat q =
     (if \<not> is_initialized chat then (not_initialized, chat)
      else (case ask_steps env chat q of
              Inl e \<Rightarrow> (apology @ error_message e, chat)
            | Inr (answer, chat') \<Rightarrow> (answer, chat')))"

text \<open>
  The positions at which \<open>findall\<close> can try a pattern, each with the character before
  it, and the texts on which a pattern matches at none of them.
\<close>

fun positions :: "char option \<Rightarrow> string \<Rightarrow> (char option \<times> string) list" where
  "positions prev [] = []"
| "positions prev (c # cs) = (prev, c # cs) # positions (Some c) cs"

definition matches_nowhere :: "matcher \<Rightarrow> string \<Rightarrow> bool" where
  "matches_nowhere m text =
     list_all (\<lambda>(prev, s). m prev s = None \<or> m prev s = Some 0) (positions None text)"




section \<open>Example inputs\<close>

text \<open>Eleven questions with their answers, for a memory of capacity ten.\<close>

definition eleven_questions :: "(string \<times> string) list" where
  "eleven_questions =
     [(''What is the budget surplus?'', ''a1''), (''And the debt?'', ''a2''),
      (''Any capital works?'', ''a3''), (''What about tax?'', ''a4''),
      (''Is the pension funded?'', ''a5''), (''What are the risks?'', ''a6''),
      (''Hello'', ''a7''), (''What is the deficit?'', ''a8''),
      (''Interest cost?'', ''a9''), (''Construction projects?'', ''a10''),
      (''What about the budget deficit?'', ''a11'')]"

text \<open>
  A collection that holds its documents in a list and answers a query with the first
  documents, at distances \<open>0\<close>, \<open>1/4\<close>, \<open>1/2\<close> and so on; a splitter that returns the text
  as one chunk; a template body that is the retrieved content.
\<close>

definition example_env :: "string list env" where
  "example_env =
     \<lparr>read_file =
        (\<lambda>path. if path = ''policy.txt'' then Inr ''The budget deficit was $91.5m in 2005-06.''
                else Inl (FileNotFoundError path)),
      split_text = (\<lambda>s. Inr [s]),
      encode = (\<lambda>s. Inr [real (length s)]),
      collection_count = (\<lambda>c. Inr (length c)),
      collection_add = (\<lambda>c embeddings metas docs ids. Inr (c @ docs)),
      collection_query =
        (\<lambda>c v n. Inr \<lparr>documents = [take (nat n) c],
                        metadatas = [map (\<lambda>d. Some [(''section_type'', MStr ''budget'')]) (take (nat n) c)],
                        distances = [map (\<lambda>i. real i / 4) [0..<length (take (nat n) c)]]\<rparr>),
      template_body = (\<lambda>t content sources. content)\<rparr>"

text \<open>The same, with a store that cannot be reached, and with one whose entries carry no
  metadata.\<close>

definition failing_env :: "string list env" where
  "failing_env = example_env\<lparr>collection_query := (\<lambda>c v n. Inl (Exception ''store unavailable''))\<rparr>"

definition bare_env :: "string list env" where
  "bare_env =
     example_env\<lparr>collection_query :=
       (\<lambda>c v n. Inr \<lparr>documents = [[''Debt is low.'']], metadatas = [[None]], distances = [[0]]\<rparr>)\<rparr>"

definition example_chatbot :: "string list chatbot" where
  "example_chatbot =
     \<lparr>document_path = ''policy.txt'',
      vector_db = \<lparr>collection_name = ''financial_policy'',
                   collection = [''The budget deficit was $91.5m.'', ''Debt is low.'', ''Capital works.'']\<rparr>,
      memory = new_memory 10,
      is_initialized = True\<rparr>"


text \<open>The question of the scenario, and what the example collection and the collection
  without metadata answer to it.\<close>

definition example_question :: string where
  "example_question = ''What about the budget deficit?''"

definition example_results :: "search_result list" where
  "example_results =
     [\<lparr>result_content = ''The budget deficit was $91.5m.'',
       result_metadata = Some [(''section_type'', MStr ''budget'')], score = 1\<rparr>,
      \<lparr>result_content = ''Debt is low.'',
       result_metadata = Some [(''section_type'', MStr ''budget'')], score = 3 / 4\<rparr>,
      \<lparr>result_content = ''Capital works.'',
       result_metadata = Some [(''section_type'', MStr ''budget'')], score = 1 / 2\<rparr>]"

definition bare_results :: "search_result list" where
  "bare_results = [\<lparr>result_content = ''Debt is low.'', result_metadata = None, score = 1\<rparr>]"



text \<open>A chatbot before its initialization, over an empty collection, and an \<open>add\<close> that
  always fails.\<close>

definition new_example_chatbot :: "string list chatbot" where
  "new_example_chatbot =
     \<lparr>document_path = ''policy.txt'',
      vector_db = \<lparr>collection_name = ''financial_policy'', collection = []\<rparr>,
      memory = new_memory 10,
      is_initialized = False\<rparr>"

definition read_only_add ::
    "string list \<Rightarrow> embedding list \<Rightarrow> metadata list \<Rightarrow> string list \<Rightarrow> string list \<Rightarrow> error + string list" where
  "read_only_add c embeddings metas docs ids = Inl (Exception ''collection is read-only'')"


section \<open>Properties of ConversationMemory\<close>









lemma add_interaction_max_history [simp]: "max_history (add_interaction q r m) = max_history m"
  by (simp add: add_interaction_def Let_def)

lemma add_interaction_topic [simp]:
  "current_topic (add_interaction q r m) = Some (identify_topic q)"
  by (simp add: add_interaction_def Let_def)

lemma add_interaction_history:
  "conversation_history (add_interaction q r m) =
     (if max_history m < int (length (conversation_history m)) + 1
      then tl (conversation_history m @ [interaction_of (q, r)])
      else conversation_history m @ [interaction_of (q, r)])"
  by (simp add: add_interaction_def Let_def interaction_of_def)

lemma add_interaction_bounded:
  "int (length (conversation_history m)) \<le> max_history m \<Longrightarrow>
     int (length (conversation_history (add_interaction q r m))) \<le> max_history m"
  by (auto simp: add_interaction_history)

lemma add_interaction_drop:
  assumes "int (length (conversation_history m)) \<le> max_history m"
  shows "conversation_history (add_interaction q r m) =
     drop (Suc (length (conversation_history m)) - nat (max_history m))
       (conversation_history m @ [interaction_of (q, r)])"
proof -
  define extended where "extended = conversation_history m @ [interaction_of (q, r)]"
  have tl_drop: "tl extended = drop (Suc 0) extended" by (simp add: drop_Suc)
  have h: "conversation_history (add_interaction q r m) =
     (if max_history m < int (length (conversation_history m)) + 1 then tl extended else extended)"
    by (simp add: add_interaction_history extended_def)
  show ?thesis
  proof (cases "max_history m < int (length (conversation_history m)) + 1")
    case True
    with assms have "Suc (length (conversation_history m)) - nat (max_history m) = Suc 0"
      by linarith
    with True h tl_drop show ?thesis unfolding extended_def [symmetric] by simp
  next
    case False
    then have "Suc (length (conversation_history m)) - nat (max_history m) = 0" by linarith
    with False h show ?thesis unfolding extended_def [symmetric] by simp
  qed
qed

lemma record_all_max_history [simp]: "max_history (record_all qrs m) = max_history m"
  unfolding record_all_def by (induction qrs arbitrary: m) (auto)

lemma record_all_snoc: "record_all (qrs @ [(q, r)]) m = add_interaction q r (record_all qrs m)"
  by (simp add: record_all_def)

lemma record_all_bounded:
  "int (length (conversation_history m)) \<le> max_history m \<Longrightarrow>
     int (length (conversation_history (record_all qrs m))) \<le> max_history m"
proof (induction qrs rule: rev_induct)
  case Nil
  then show ?case by (simp add: record_all_def)
next
  case (snoc qr qrs)
  then show ?case
    using add_interaction_bounded [of "record_all qrs m" "fst qr" "snd qr"]
    by (cases qr) (simp add: record_all_snoc)
qed

lemma record_all_drop:
  assumes "int (length (conversation_history m)) \<le> max_history m"
  shows "conversation_history (record_all qrs m) =
     drop (length (conversation_history m) + length qrs - nat (max_history m))
       (conversation_history m @ map interaction_of qrs)"
proof (induction qrs rule: rev_induct)
  case Nil
  from assms have "length (conversation_history m) - nat (max_history m) = 0" by linarith
  then show ?case by (simp add: record_all_def)
next
  case (snoc qr qrs)
  obtain q r where qr: "qr = (q, r)" by (cases qr)
  define m' where "m' = record_all qrs m"
  define recorded where "recorded = conversation_history m @ map interaction_of qrs"
  define k where "k = length recorded - nat (max_history m)"
  have bound: "int (length (conversation_history m')) \<le> max_history m'"
    using record_all_bounded [OF assms] by (simp add: m'_def)
  have h: "conversation_history m' = drop k recorded"
    using snoc by (simp add: k_def m'_def recorded_def)
  have kle: "k \<le> length recorded" by (simp add: k_def)
  have mh: "max_history m' = max_history m" by (simp add: m'_def)
  have len: "length (conversation_history m') = length recorded - k" using h by simp
  have "conversation_history (record_all (qrs @ [qr]) m) =
          drop (Suc (length recorded - k) - nat (max_history m))
            (drop k recorded @ [interaction_of (q, r)])"
    using add_interaction_drop [OF bound, of q r] unfolding mh h
    by (simp only: qr record_all_snoc m'_def length_drop)
  also have "drop k recorded @ [interaction_of (q, r)] = drop k (recorded @ [interaction_of (q, r)])"
    using kle by simp
  also have "drop (Suc (length recorded - k) - nat (max_history m))
               (drop k (recorded @ [interaction_of (q, r)]))
     = drop (Suc (length recorded - k) - nat (max_history m) + k) (recorded @ [interaction_of (q, r)])"
    by (simp only: drop_drop)
  also have "Suc (length recorded - k) - nat (max_history m) + k
     = Suc (length recorded) - nat (max_history m)"
    using kle by (simp add: k_def)
  also have "Suc (length recorded) = length (conversation_history m) + length (qrs @ [qr])"
    by (simp add: recorded_def)
  also have "recorded @ [interaction_of (q, r)] = conversation_history m @ map interaction_of (qrs @ [qr])"
    by (simp add: recorded_def qr)
  finally show ?case .
qed

lemma record_all_topic:
  "qrs \<noteq> [] \<Longrightarrow> current_topic (record_all qrs m) = Some (identify_topic (fst (last qrs)))"
  by (induction qrs rule: rev_induct) (auto simp: record_all_snoc)

text \<open>
  C5. The history is a bounded queue. From a new memory of capacity \<open>N\<close>, the history never
  holds more than \<open>N\<close> interactions, whatever is recorded. After \<open>N + 1\<close> interactions are
  recorded, the history length is \<open>N\<close>, the history is the last \<open>N\<close> of them in order, so the
  oldest has been evicted (it is absent unless a later interaction equals it), and the
  current topic is the topic of the question recorded last.
\<close>

theorem memory_bounded_fifo:
  assumes "0 \<le> N" and "length rest = nat N"
  shows "(\<forall>qrs. int (length (conversation_history (record_all qrs (new_memory N)))) \<le> N)
    \<and> history_length (get_context (record_all (first # rest) (new_memory N))) = nat N
    \<and> conversation_history (record_all (first # rest) (new_memory N)) = map interaction_of rest
    \<and> (interaction_of first \<notin> set (map interaction_of rest) \<longrightarrow>
          interaction_of first \<notin> set (conversation_history (record_all (first # rest) (new_memory N))))
    \<and> current_topic (record_all (first # rest) (new_memory N)) = Some (identify_topic (fst (last (first # rest))))"
proof -
  have init: "int (length (conversation_history (new_memory N))) \<le> max_history (new_memory N)"
    using assms(1) by (simp add: new_memory_def)
  have a: "\<forall>qrs. int (length (conversation_history (record_all qrs (new_memory N)))) \<le> N"
    using record_all_bounded [OF init] by (simp add: new_memory_def)
  have h: "conversation_history (record_all (first # rest) (new_memory N)) = map interaction_of rest"
    using record_all_drop [OF init, of "first # rest"] assms(2) by (simp add: new_memory_def)
  have t: "current_topic (record_all (first # rest) (new_memory N)) = Some (identify_topic (fst (last (first # rest))))"
    by (rule record_all_topic) simp
  from a h t assms(2) show ?thesis by (simp add: get_context_def)
qed

theorem memory_bounded_fifo_witness:
  "int (length (conversation_history (record_all (take 4 eleven_questions) (new_memory 10)))) \<le> 10
   \<and> history_length (get_context (record_all eleven_questions (new_memory 10))) = 10
   \<and> conversation_history (record_all eleven_questions (new_memory 10))
        = map interaction_of (tl eleven_questions)
   \<and> interaction_of (hd eleven_questions)
        \<notin> set (conversation_history (record_all eleven_questions (new_memory 10)))
   \<and> current_topic (record_all eleven_questions (new_memory 10)) = Some Budget"
proof -
  have split: "eleven_questions = hd eleven_questions # tl eleven_questions"
    by (simp add: eleven_questions_def)
  have len: "length (tl eleven_questions) = nat 10" by (simp add: eleven_questions_def)
  have fresh: "interaction_of (hd eleven_questions) \<notin> set (map interaction_of (tl eleven_questions))"
    by (simp add: eleven_questions_def interaction_of_def)
  have last: "identify_topic (fst (last (hd eleven_questions # tl eleven_questions))) = Budget"
    unfolding split [symmetric] by (simp add: eleven_questions_def) code_simp
  from memory_bounded_fifo [of 10 "tl eleven_questions" "hd eleven_questions"] len fresh last
  show ?thesis unfolding split [symmetric] by simp
qed



section \<open>Properties of the extractor\<close>

lemma findall_no_match:
  "list_all (\<lambda>(prev, s). m prev s = None \<or> m prev s = Some 0) (positions prev s) \<Longrightarrow>
     findall m prev s = []"
  by (induction s arbitrary: prev) auto

lemma findall_skips:
  assumes inside: "\<And>prev x1 x2 n. x = x1 @ x2 \<Longrightarrow> x2 \<noteq> [] \<Longrightarrow> m prev (x2 @ t) = Some n \<Longrightarrow> n \<le> length x2"
  shows "\<exists>ms prev'. findall m prev (x @ t) = ms @ findall m prev' t"
  using inside
proof (induction "length x" arbitrary: x prev rule: less_induct)
  case less
  show ?case
  proof (cases x)
    case Nil
    then show ?thesis by (metis append_Nil)
  next
    case (Cons c cs)
    have tail: "\<exists>ms prev'. findall m p (drop k cs @ t) = ms @ findall m prev' t" for k p
    proof (rule less.hyps)
      show "length (drop k cs) < length x" using Cons by simp
    next
      fix prev x1 x2 n
      assume "drop k cs = x1 @ x2" "x2 \<noteq> []" "m prev (x2 @ t) = Some n"
      moreover have "x = (c # take k cs @ x1) @ x2"
        using Cons \<open>drop k cs = x1 @ x2\<close> by (metis append_Cons append_assoc append_take_drop_id)
      ultimately show "n \<le> length x2" using less.prems by blast
    qed
    show ?thesis
    proof (cases "m prev (c # cs @ t)")
      case None
      then show ?thesis using tail [of "Some c" 0] Cons by simp
    next
      case (Some n)
      show ?thesis
      proof (cases n)
        case 0
        with Some show ?thesis using tail [of "Some c" 0] Cons by simp
      next
        case (Suc k)
        have "Suc k \<le> length x"
          using less.prems [of "[]" x prev "Suc k"] Some Suc Cons by simp
        then have k: "k \<le> length cs" using Cons by simp
        then have d: "drop k (cs @ t) = drop k cs @ t" by simp
        obtain ms prev' where
          "findall m (Some (last (take (Suc k) (c # cs @ t)))) (drop k cs @ t) = ms @ findall m prev' t"
          using tail by blast
        then have "findall m prev (x @ t) = (take (Suc k) (c # cs @ t) # ms) @ findall m prev' t"
          using Some Suc Cons d by simp
        then show ?thesis by blast
      qed
    qed
  qed
qed

lemma optional_keeps:
  "y \<notin> set cs \<Longrightarrow> optional cs (x @ y # t) = optional cs x @ y # t"
  by (cases x) (auto simp: optional_def)

lemma optional_length: "length (optional cs s) \<le> length s"
  by (cases s) (auto simp: optional_def)

lemma match_dollar_length: "match_dollar prev s = Some n \<Longrightarrow> n \<le> length s"
  by (cases s) (auto simp: match_dollar_def Let_def split: if_splits)

lemma match_dollar_stops_at_dollar:
  assumes "x \<noteq> []"
  shows "match_dollar prev (x @ CHR ''$'' # t) = match_dollar prev x"
proof -
  obtain c cs where x: "x = c # cs" using assms by (cases x) auto
  define p where "p = (\<lambda>d. is_digit d \<or> d = CHR '','')"
  have np: "\<not> p CHR ''$''" by (simp add: p_def is_digit_def digits_def)
  have nd: "\<not> is_digit CHR ''$''" by (simp add: is_digit_def digits_def)
  define r4 where "r4 = optional ''mM'' (dropWhile is_digit (optional ''.'' (dropWhile p cs)))"
  have tw: "takeWhile p (cs @ CHR ''$'' # t) = takeWhile p cs"
    using np by (rule takeWhile_tail)
  have dw1: "dropWhile p (y @ CHR ''$'' # t) = dropWhile p y @ CHR ''$'' # t" for y
    using np by (rule dropWhile_append3)
  have dw2: "dropWhile is_digit (y @ CHR ''$'' # t) = dropWhile is_digit y @ CHR ''$'' # t" for y
    using nd by (rule dropWhile_append3)
  have op1: "optional ''.'' (y @ CHR ''$'' # t) = optional ''.'' y @ CHR ''$'' # t" for y
    by (rule optional_keeps) simp
  have op2: "optional ''mM'' (y @ CHR ''$'' # t) = optional ''mM'' y @ CHR ''$'' # t" for y
    by (rule optional_keeps) simp
  have rest: "optional ''mM'' (dropWhile is_digit (optional ''.'' (dropWhile p (cs @ CHR ''$'' # t))))
      = r4 @ CHR ''$'' # t"
    unfolding r4_def dw1 op1 dw2 op2 ..
  have "length r4 \<le> length cs"
    unfolding r4_def
    by (meson optional_length length_dropWhile_le order_trans)
  then have len: "length (c # cs @ CHR ''$'' # t) - length (r4 @ CHR ''$'' # t) = length (c # cs) - length r4"
    by simp
  have l: "match_dollar prev (c # cs @ CHR ''$'' # t) =
      (if c \<noteq> CHR ''$'' \<or> takeWhile p (cs @ CHR ''$'' # t) = [] then None
       else Some (length (c # cs @ CHR ''$'' # t)
          - length (optional ''mM'' (dropWhile is_digit (optional ''.'' (dropWhile p (cs @ CHR ''$'' # t)))))))"
    unfolding match_dollar_def p_def Let_def by (simp only: list.case)
  have r: "match_dollar prev (c # cs) =
      (if c \<noteq> CHR ''$'' \<or> takeWhile p cs = [] then None else Some (length (c # cs) - length r4))"
    unfolding match_dollar_def p_def Let_def r4_def by (simp only: list.case)
  show ?thesis
    unfolding x append_Cons l r rest tw len ..
qed

lemma match_dollar_example: "match_dollar prev (''$185.7m'' @ post) = Some 7"
  by (simp add: match_dollar_def Let_def is_digit_def digits_def optional_def)

lemma findall_dollar_example:
  "''$185.7m'' \<in> set (findall match_dollar prev (x @ ''$185.7m'' @ post))"
proof -
  have "\<exists>ms prev'. findall match_dollar prev (x @ ''$185.7m'' @ post)
           = ms @ findall match_dollar prev' (''$185.7m'' @ post)"
  proof (rule findall_skips)
    fix prev x1 x2 n
    assume "x2 \<noteq> []" and "match_dollar prev (x2 @ ''$185.7m'' @ post) = Some n"
    then have "match_dollar prev x2 = Some n"
      using match_dollar_stops_at_dollar [of x2 prev "''185.7m'' @ post"] by simp
    then show "n \<le> length x2" by (rule match_dollar_length)
  qed
  then obtain ms prev' where
    "findall match_dollar prev (x @ ''$185.7m'' @ post) = ms @ findall match_dollar prev' (''$185.7m'' @ post)"
    by blast
  moreover have "findall match_dollar prev' (''$185.7m'' @ post)
      = ''$185.7m'' # findall match_dollar (Some CHR ''m'') post"
    using match_dollar_example [of prev' post] by simp
  ultimately show ?thesis by simp
qed

text \<open>
  C9. \<open>extract_financial_data\<close> returns its four fields for every text and has no failing
  path. A field is empty when its pattern matches at no position of the text; all four are
  empty on the empty text. For every text that contains \<open>surplus of $185.7m\<close>, the
  dollar amounts include \<open>$185.7m\<close>.
\<close>

theorem extract_financial_data_total:
  "extract_financial_data [] =
     \<lparr>dollar_amounts = [], percentages = [], years = [], found_keywords = []\<rparr>
   \<and> (matches_nowhere match_dollar s \<longrightarrow> dollar_amounts (extract_financial_data s) = [])
   \<and> (matches_nowhere match_percent s \<longrightarrow> percentages (extract_financial_data s) = [])
   \<and> (matches_nowhere match_year s \<longrightarrow> years (extract_financial_data s) = [])
   \<and> (list_all (\<lambda>pattern. matches_nowhere (match_keyword pattern) s) keyword_patterns \<longrightarrow>
         found_keywords (extract_financial_data s) = [])
   \<and> ''$185.7m'' \<in> set (dollar_amounts (extract_financial_data (pre @ ''surplus of $185.7m'' @ post)))"
proof -
  have empty: "extract_financial_data [] =
      \<lparr>dollar_amounts = [], percentages = [], years = [], found_keywords = []\<rparr>"
    by (simp add: extract_financial_data_def keyword_patterns_def)
  have none: "matches_nowhere m s \<Longrightarrow> findall m None s = []" for m
    unfolding matches_nowhere_def by (rule findall_no_match)
  have kw: "list_all (\<lambda>pattern. matches_nowhere (match_keyword pattern) s) keyword_patterns \<Longrightarrow>
      found_keywords (extract_financial_data s) = []"
    by (simp add: extract_financial_data_def keyword_patterns_def none)
  have "''$185.7m'' \<in> set (findall match_dollar None ((pre @ ''surplus of '') @ ''$185.7m'' @ post))"
    by (rule findall_dollar_example)
  then have dollar: "''$185.7m'' \<in> set (dollar_amounts (extract_financial_data (pre @ ''surplus of $185.7m'' @ post)))"
    by (simp add: extract_financial_data_def)
  from empty kw dollar show ?thesis
    by (simp add: extract_financial_data_def none)
qed

theorem extract_financial_data_total_witness:
  "extract_financial_data ''no figures here'' =
     \<lparr>dollar_amounts = [], percentages = [], years = [], found_keywords = []\<rparr>
   \<and> ''$185.7m'' \<in> set (dollar_amounts
         (extract_financial_data (''An aggregate '' @ ''surplus of $185.7m'' @ '' (2002-06).'')))"
proof -
  have d: "matches_nowhere match_dollar ''no figures here''" by code_simp
  have p: "matches_nowhere match_percent ''no figures here''" by code_simp
  have y: "matches_nowhere match_year ''no figures here''" by code_simp
  have k: "list_all (\<lambda>pattern. matches_nowhere (match_keyword pattern) ''no figures here'') keyword_patterns"
    by code_simp
  from extract_financial_data_total [of "''no figures here''" "''An aggregate ''" "'' (2002-06).''"] d p y k
  have "dollar_amounts (extract_financial_data ''no figures here'') = []"
    and "percentages (extract_financial_data ''no figures here'') = []"
    and "years (extract_financial_data ''no figures here'') = []"
    and "found_keywords (extract_financial_data ''no figures here'') = []"
    and w: "''$185.7m'' \<in> set (dollar_amounts
         (extract_financial_data (''An aggregate '' @ ''surplus of $185.7m'' @ '' (2002-06).'')))"
    by blast+
  then have "extract_financial_data ''no figures here'' =
     \<lparr>dollar_amounts = [], percentages = [], years = [], found_keywords = []\<rparr>"
    by (cases "extract_financial_data ''no figures here''") simp
  with w show ?thesis by blast
qed

section \<open>Properties of the response templates\<close>






text \<open>The examples, evaluated.\<close>

lemma example_enhance:
  "enhance_question (memory example_chatbot) example_question = example_question"
  by (simp add: enhance_question_def example_chatbot_def new_memory_def)

lemma upt_3: "[0..<3] = [0, 1, 2]"
  by (simp add: upt_rec)

lemma example_search:
  "search example_env (vector_db example_chatbot) example_question 3 = Inr example_results"
  by (simp add: search_def example_env_def example_chatbot_def item_def format_result_def
      example_results_def upt_3)

lemma failing_search:
  "search failing_env (vector_db example_chatbot) example_question 3
     = Inl (Exception ''store unavailable'')"
  by (simp add: search_def failing_env_def example_env_def)

lemma bare_search:
  "search bare_env (vector_db example_chatbot) example_question 3 = Inr bare_results"
  by (simp add: search_def bare_env_def example_env_def item_def format_result_def bare_results_def)

lemma bare_generate:
  "generate_response bare_env example_question bare_results
     = Inl (AttributeError (apostrophe @ ''NoneType'' @ apostrophe
             @ '' object has no attribute '' @ apostrophe @ ''get'' @ apostrophe))"
  by (simp add: generate_response_def bare_results_def source_label_def)

lemma example_budget: "any_in [''budget'', ''surplus'', ''deficit''] (lower example_question)"
  unfolding example_question_def by code_simp

lemma example_generate:
  "generate_response example_env example_question example_results
     = Inr (headline BudgetTemplate @ newline @ newline
            @ ''The budget deficit was $91.5m. Debt is low.'')"
  using example_budget
  by (simp add: generate_response_def example_results_def source_label_def
      create_contextual_response_def Let_def format_budget_response_def example_env_def)



section \<open>Properties of ask\<close>



text \<open>
  C10. A call of \<open>ask\<close> that ends in the apology leaves the chatbot as it was: the
  conversation history and the current topic are those before the call, whether the
  search or the generation raised. The interaction is recorded only when a response has
  been generated.
\<close>

theorem ask_failure_keeps_memory:
  "(search env (vector_db chat) (enhance_question (memory chat) q) 3 = Inl e \<longrightarrow>
       snd (ask env chat q) = chat
       \<and> conversation_history (memory (snd (ask env chat q))) = conversation_history (memory chat)
       \<and> current_topic (memory (snd (ask env chat q))) = current_topic (memory chat))
   \<and> (search env (vector_db chat) (enhance_question (memory chat) q) 3 = Inr found
        \<and> generate_response env (enhance_question (memory chat) q) found = Inl e \<longrightarrow>
       snd (ask env chat q) = chat
       \<and> conversation_history (memory (snd (ask env chat q))) = conversation_history (memory chat)
       \<and> current_topic (memory (snd (ask env chat q))) = current_topic (memory chat))
   \<and> (is_initialized chat
        \<and> search env (vector_db chat) (enhance_question (memory chat) q) 3 = Inr found
        \<and> generate_response env (enhance_question (memory chat) q) found = Inr answer \<longrightarrow>
       memory (snd (ask env chat q)) = add_interaction q answer (memory chat))"
  by (simp add: ask_def ask_steps_def Let_def)

theorem ask_failure_keeps_memory_witness:
  "snd (ask failing_env example_chatbot example_question) = example_chatbot
   \<and> conversation_history (memory (snd (ask bare_env example_chatbot example_question))) = []
   \<and> current_topic (memory (snd (ask bare_env example_chatbot example_question))) = None
   \<and> current_topic (memory (snd (ask example_env example_chatbot example_question))) = Some Budget"
proof -
  have init: "is_initialized example_chatbot" by (simp add: example_chatbot_def)
  have topic: "identify_topic example_question = Budget"
    unfolding example_question_def by code_simp
  from ask_failure_keeps_memory [of failing_env example_chatbot example_question
      "Exception ''store unavailable''"]
  have 1: "snd (ask failing_env example_chatbot example_question) = example_chatbot"
    by (simp add: example_enhance failing_search)
  from ask_failure_keeps_memory [of bare_env example_chatbot example_question _ bare_results]
  have 2: "conversation_history (memory (snd (ask bare_env example_chatbot example_question)))
         = conversation_history (memory example_chatbot)"
      "current_topic (memory (snd (ask bare_env example_chatbot example_question)))
         = current_topic (memory example_chatbot)"
    by (simp_all add: example_enhance bare_search bare_generate)
  from ask_failure_keeps_memory [of example_env example_chatbot example_question _ example_results]
  have 3: "memory (snd (ask example_env example_chatbot example_question))
      = add_interaction example_question
          (headline BudgetTemplate @ newline @ newline @ ''The budget deficit was $91.5m. Debt is low.'')
          (memory example_chatbot)"
    using init by (simp add: example_enhance example_search example_generate)
  have "current_topic (memory (snd (ask example_env example_chatbot example_question))) = Some Budget"
    unfolding 3 by (simp add: add_interaction_def Let_def topic)
  with 1 2 show ?thesis by (simp add: example_chatbot_def new_memory_def)
qed

section \<open>Properties of the initialization\<close>

lemma process_document_path:
  "process_document (env\<lparr>collection_add := f\<rparr>) path = process_document env path"
  by (simp add: process_document_def split: sum.splits)

lemma initialize_result:
  assumes "initialize env chat = Inr chat'"
  shows "document_path chat' = document_path chat" and "is_initialized chat'"
    and "\<exists>docs. process_document env (document_path chat) = Inr docs"
  using assms
  by (auto simp: initialize_def split: sum.splits if_splits)

lemma processed_chunk_content: "chunk_content (processed_chunk i s) = s"
  by (simp add: processed_chunk_def Let_def)

text \<open>
  \<open>process_document\<close> hands on what the splitter returns: the processed chunks carry the
  splitter's chunks in its order, unchanged, numbered from zero.
\<close>

lemma processed_chunk_index: "chunk_index (chunk_metadata (processed_chunk i s)) = i"
  by (simp add: processed_chunk_def Let_def)

lemma processed_chunk_id: "chunk_id (processed_chunk i s) = ''chunk_'' @ str_nat i"
  by (simp add: processed_chunk_def Let_def)

lemma process_document_keeps_chunks:
  assumes "read_file env path = Inr s" and "split_text env s = Inr chunks"
  shows "\<exists>docs. process_document env path = Inr docs
     \<and> map chunk_content docs = chunks
     \<and> map (\<lambda>d. chunk_index (chunk_metadata d)) docs = [0..<length chunks]
     \<and> map chunk_id docs = map (\<lambda>i. ''chunk_'' @ str_nat i) [0..<length chunks]"
proof -
  define docs where "docs = map (\<lambda>(i, chunk). processed_chunk i chunk) (enumerate 0 chunks)"
  have p: "process_document env path = Inr docs"
    using assms by (simp add: process_document_def docs_def)
  have "map chunk_content docs = map snd (enumerate 0 chunks)"
    unfolding docs_def map_map by (rule map_cong) (auto simp: processed_chunk_content)
  then have c: "map chunk_content docs = chunks" by simp
  have i: "map (\<lambda>d. chunk_index (chunk_metadata d)) docs = map fst (enumerate 0 chunks)"
    unfolding docs_def map_map by (rule map_cong) (auto simp: processed_chunk_index)
  have "map chunk_id docs = map (\<lambda>p. ''chunk_'' @ str_nat (fst p)) (enumerate 0 chunks)"
    unfolding docs_def map_map by (rule map_cong) (auto simp: processed_chunk_id)
  also have "\<dots> = map (\<lambda>i. ''chunk_'' @ str_nat i) (map fst (enumerate 0 chunks))"
    by (simp only: map_map comp_def)
  finally have n: "map chunk_id docs = map (\<lambda>i. ''chunk_'' @ str_nat i) [0..<length chunks]"
    by simp
  from p c i n show ?thesis by (intro exI [of _ docs]) simp
qed

lemma example_process_document:
  "process_document example_env ''policy.txt''
     = Inr [processed_chunk 0 ''The budget deficit was $91.5m in 2005-06.'']"
  by (simp add: process_document_def example_env_def)

lemma new_example_initialize:
  "initialize example_env new_example_chatbot =
     Inr (new_example_chatbot
            \<lparr>vector_db := \<lparr>collection_name = ''financial_policy'',
                           collection = [''The budget deficit was $91.5m in 2005-06.'']\<rparr>,
             is_initialized := True\<rparr>)"
proof -
  have p: "process_document example_env (document_path new_example_chatbot)
      = Inr [processed_chunk 0 ''The budget deficit was $91.5m in 2005-06.'']"
    by (simp add: new_example_chatbot_def example_process_document)
  have c: "get_collection_info example_env (vector_db new_example_chatbot)
      = Inr \<lparr>info_name = ''financial_policy'', document_count = 0, info_model = ''all-MiniLM-L6-v2''\<rparr>"
    by (simp add: get_collection_info_def new_example_chatbot_def example_env_def)
  have e: "encode_all example_env [processed_chunk 0 ''The budget deficit was $91.5m in 2005-06.'']
      = Inr [[41]]"
    by (simp add: processed_chunk_content example_env_def)
  have a: "add_documents example_env (vector_db new_example_chatbot)
        [processed_chunk 0 ''The budget deficit was $91.5m in 2005-06.'']
      = Inr \<lparr>collection_name = ''financial_policy'',
              collection = [''The budget deficit was $91.5m in 2005-06.'']\<rparr>"
    unfolding add_documents_def e
    by (simp add: processed_chunk_content example_env_def new_example_chatbot_def)
  show ?thesis
    unfolding initialize_def p c by (simp add: a)
qed

text \<open>
  C2. Initialization adds to the collection only when the collection reports no documents.
  On a collection that reports some, \<open>_initialize\<close> changes nothing but the flag, and its
  result does not depend on what \<open>add\<close> would do. So a second initialization, after one
  that has left the collection populated, returns the chatbot unchanged: the collection,
  and with it the document count, is the same and no vector is added twice.
\<close>

theorem initialize_idempotent:
  "(process_document env (document_path chat) = Inr docs
      \<and> collection_count env (collection (vector_db chat)) = Inr n \<and> n \<noteq> 0 \<longrightarrow>
        initialize env chat = Inr (chat\<lparr>is_initialized := True\<rparr>)
        \<and> initialize (env\<lparr>collection_add := f\<rparr>) chat = initialize env chat)
   \<and> (initialize env chat = Inr chat'
      \<and> collection_count env (collection (vector_db chat')) = Inr n \<and> n \<noteq> 0 \<longrightarrow>
        initialize env chat' = Inr chat')"
proof -
  have skip: "initialize env chat = Inr (chat\<lparr>is_initialized := True\<rparr>)"
    if "process_document env (document_path chat) = Inr docs"
      and "collection_count env (collection (vector_db chat)) = Inr n" and "n \<noteq> 0"
    for env :: "'a env" and chat docs n
    using that by (simp add: initialize_def get_collection_info_def)
  have unused: "initialize (env\<lparr>collection_add := f\<rparr>) chat = initialize env chat"
    if "process_document env (document_path chat) = Inr docs"
      and "collection_count env (collection (vector_db chat)) = Inr n" and "n \<noteq> 0"
    using that by (simp add: initialize_def get_collection_info_def process_document_path)
  have again: "initialize env chat' = Inr chat'"
    if i: "initialize env chat = Inr chat'"
      and c: "collection_count env (collection (vector_db chat')) = Inr n" and n: "n \<noteq> 0"
  proof -
    from initialize_result [OF i] obtain docs where
      "process_document env (document_path chat') = Inr docs" and t: "is_initialized chat'"
      by auto
    from skip [OF this(1) c n] t show ?thesis by simp
  qed
  from skip unused again show ?thesis by blast
qed

theorem initialize_idempotent_witness:
  "initialize example_env example_chatbot = Inr example_chatbot
   \<and> initialize (example_env\<lparr>collection_add := read_only_add\<rparr>) example_chatbot = Inr example_chatbot
   \<and> initialize example_env
        (new_example_chatbot
            \<lparr>vector_db := \<lparr>collection_name = ''financial_policy'',
                           collection = [''The budget deficit was $91.5m in 2005-06.'']\<rparr>,
             is_initialized := True\<rparr>)
      = Inr (new_example_chatbot
            \<lparr>vector_db := \<lparr>collection_name = ''financial_policy'',
                           collection = [''The budget deficit was $91.5m in 2005-06.'']\<rparr>,
             is_initialized := True\<rparr>)"
proof -
  have p: "process_document example_env (document_path example_chatbot)
      = Inr [processed_chunk 0 ''The budget deficit was $91.5m in 2005-06.'']"
    by (simp add: example_chatbot_def example_process_document)
  have c: "collection_count example_env (collection (vector_db example_chatbot)) = Inr 3"
    by (simp add: example_env_def example_chatbot_def)
  have t: "example_chatbot\<lparr>is_initialized := True\<rparr> = example_chatbot"
    by (simp add: example_chatbot_def)
  define chat' where "chat' = new_example_chatbot
            \<lparr>vector_db := \<lparr>collection_name = ''financial_policy'',
                           collection = [''The budget deficit was $91.5m in 2005-06.'']\<rparr>,
             is_initialized := True\<rparr>"
  have c': "collection_count example_env (collection (vector_db chat')) = Inr 1"
    by (simp add: example_env_def chat'_def)
  have i: "initialize example_env new_example_chatbot = Inr chat'"
    unfolding chat'_def by (rule new_example_initialize)
  from initialize_idempotent [of example_env example_chatbot _ 3 read_only_add] p c t
  have 1: "initialize example_env example_chatbot = Inr example_chatbot"
    and 2: "initialize (example_env\<lparr>collection_add := read_only_add\<rparr>) example_chatbot = Inr example_chatbot"
    by simp_all
  from initialize_idempotent [of example_env new_example_chatbot _ 1 _ chat'] i c'
  have 3: "initialize example_env chat' = Inr chat'" by simp
  from 1 2 3 show ?thesis unfolding chat'_def by blast
qed

section \<open>Properties of search\<close>








end
